theory Spec2Isabelle
  imports Main
begin

section \<open>Python values and exceptions\<close>

text \<open>
  The exceptions the modelled functions of \<^verbatim>\<open>seller.py\<close> can raise. The first
  group are Python's own, the second group are raised by the libraries the
  module calls (\<^verbatim>\<open>requests\<close>, \<^verbatim>\<open>zipfile\<close>, \<^verbatim>\<open>pandas\<close>).
\<close>

datatype error =
    TypeError | ValueError | AttributeError | IndexError | FileNotFoundError
  | HTTPError | ReadTimeout | ConnectionError | BadZipFile | ParseError

text \<open>
  A Python \<^verbatim>\<open>str\<close> is modelled as a \<^typ>\<open>string\<close>; a character outside ASCII
  stands as its UTF-8 bytes. The functions below look at ASCII characters
  only (the separator \<^verbatim>\<open>.\<close>, the digits, the sign, the underscore), and no byte
  of a multi-byte UTF-8 sequence is an ASCII byte, so splitting and filtering
  agree with what Python does on code points.

  A cell of a feed row, as \<^verbatim>\<open>watch.get(key)\<close> returns it: \<^verbatim>\<open>None\<close> for a missing
  key, a string or an integer. (The spreadsheet reader can also produce floats;
  they are outside this model.)
\<close>

datatype pyval = PyNone | PyStr string | PyInt int

definition is_digit :: "char \<Rightarrow> bool" where
  "is_digit c = (c \<in> set ''0123456789'')"

definition digit_char :: "nat \<Rightarrow> char" where
  "digit_char d = ''0123456789'' ! d"

fun nat_to_str :: "nat \<Rightarrow> string" where
  "nat_to_str n =
     (if n < 10 then [digit_char n]
      else nat_to_str (n div 10) @ [digit_char (n mod 10)])"

declare nat_to_str.simps [simp del]

text \<open>Python's \<^verbatim>\<open>str(x)\<close>.\<close>

fun py_str :: "pyval \<Rightarrow> string" where
  "py_str PyNone = ''None''"
| "py_str (PyStr s) = s"
| "py_str (PyInt i) =
     (if i < 0 then CHR ''-'' # nat_to_str (nat (- i)) else nat_to_str (nat i))"

text \<open>
  Python's \<^verbatim>\<open>int(x)\<close> in base 10: an integer is returned as it is, \<^verbatim>\<open>None\<close> is a
  \<^verbatim>\<open>TypeError\<close>, a string is stripped of surrounding whitespace and must then be
  an optional sign followed by decimal digits, where single underscores may
  stand between digits; anything else is a \<^verbatim>\<open>ValueError\<close>. Whitespace is the
  space and the characters 0x09 to 0x0D, digits are the ASCII ones (Python
  also accepts the decimal digits and spaces of other scripts).
\<close>

definition is_space :: "char \<Rightarrow> bool" where
  "is_space c = (c \<in> set [CHR '' '', CHR 0x09, CHR 0x0A, CHR 0x0B, CHR 0x0C, CHR 0x0D])"

definition strip :: "string \<Rightarrow> string" where
  "strip s = rev (dropWhile is_space (rev (dropWhile is_space s)))"

definition digit_val :: "char \<Rightarrow> nat" where
  "digit_val c = of_char c - 48"

fun digits_val :: "nat \<Rightarrow> string \<Rightarrow> error + nat" where
  "digits_val acc [] = Inr acc"
| "digits_val acc [c] =
     (if is_digit c then Inr (10 * acc + digit_val c) else Inl ValueError)"
| "digits_val acc (c # d # cs) =
     (if is_digit c then digits_val (10 * acc + digit_val c) (d # cs)
      else if c = CHR ''_'' \<and> is_digit d then digits_val acc (d # cs)
      else Inl ValueError)"

definition parse_nat :: "string \<Rightarrow> error + nat" where
  "parse_nat s =
     (case s of
        [] \<Rightarrow> Inl ValueError
      | c # cs \<Rightarrow> if is_digit c then digits_val 0 s else Inl ValueError)"

definition parse_int :: "string \<Rightarrow> error + int" where
  "parse_int s =
     (case strip s of
        [] \<Rightarrow> Inl ValueError
      | c # cs \<Rightarrow>
          if c = CHR ''-'' then map_sum id (\<lambda>n. - int n) (parse_nat cs)
          else if c = CHR ''+'' then map_sum id int (parse_nat cs)
          else map_sum id int (parse_nat (c # cs)))"

fun py_int :: "pyval \<Rightarrow> error + int" where
  "py_int PyNone = Inl TypeError"
| "py_int (PyStr s) = parse_int s"
| "py_int (PyInt i) = Inr i"

section \<open>Price conversion\<close>

text \<open>
  \<^verbatim>\<open>s.split(sep)\<close> for a separator of one character: the pieces of \<open>s\<close> between
  the occurrences of \<open>sep\<close>, so one piece more than there are occurrences.
\<close>

fun split :: "char \<Rightarrow> string \<Rightarrow> string list" where
  "split sep [] = [[]]"
| "split sep (c # cs) =
     (if c = sep then [] # split sep cs
      else (case split sep cs of
              [] \<Rightarrow> [[c]]
            | w # ws \<Rightarrow> (c # w) # ws))"

text \<open>\<^verbatim>\<open>xs[0]\<close>: an \<^verbatim>\<open>IndexError\<close> on the empty list.\<close>

definition index0 :: "'a list \<Rightarrow> error + 'a" where
  "index0 xs = (case xs of [] \<Rightarrow> Inl IndexError | x # _ \<Rightarrow> Inr x)"

text \<open>\<^verbatim>\<open>re.sub("[^0-9]", "", s)\<close>: every character that is not an ASCII digit is deleted.\<close>

definition re_sub_non_digits :: "string \<Rightarrow> string" where
  "re_sub_non_digits s = filter is_digit s"

text \<open>
  \<^verbatim>\<open>return re.sub("[^0-9]", "", price.split(".")[0])\<close>.
  The argument is what \<^verbatim>\<open>watch.get\<close> gave for the price column; only a string has the method
  \<^verbatim>\<open>split\<close>, any other value raises \<^verbatim>\<open>AttributeError\<close>.
\<close>

definition price_conversion :: "pyval \<Rightarrow> error + string" where
  "price_conversion price =
     (case price of
        PyStr s \<Rightarrow>
          (case index0 (split (CHR ''.'') s) of
             Inl e \<Rightarrow> Inl e
           | Inr part \<Rightarrow> Inr (re_sub_non_digits part))
      | _ \<Rightarrow> Inl AttributeError)"

section \<open>Feed rows and update records\<close>

text \<open>
  A feed row is the dictionary of one spreadsheet line. The three columns the
  module reads have Cyrillic names; the fields carry their transliterations:
  \<open>Kod\<close> (the vendor code), \<open>Kolichestvo\<close> (the quantity), \<open>Tsena\<close> (the price).
\<close>

record feed_row =
  Kod :: pyval
  Kolichestvo :: pyval
  Tsena :: pyval

text \<open>The dictionary \<^verbatim>\<open>{"offer_id": ..., "stock": ...}\<close>.\<close>

record stock_update =
  offer_id :: string
  stock :: int

text \<open>The dictionary built in \<^verbatim>\<open>create_prices\<close>; its key \<^verbatim>\<open>offer_id\<close> is the field \<open>price_offer_id\<close>.\<close>

record price_update =
  auto_action_enabled :: string
  currency_code :: string
  price_offer_id :: string
  old_price :: string
  price :: string

section \<open>The stock transform\<close>

text \<open>
  Lines 200 to 206, the quantity rule applied to \<^verbatim>\<open>watch.get\<close> of the quantity
  column: the tests are on \<^verbatim>\<open>str\<close> of the cell, the fallback is \<^verbatim>\<open>int\<close> of the
  cell itself, which can raise.
\<close>

definition stock_of :: "pyval \<Rightarrow> error + int" where
  "stock_of quantity =
     (let count = py_str quantity in
      if count = ''>10'' then Inr 100
      else if count = ''1'' then Inr 0
      else py_int quantity)"

text \<open>
  The first loop of \<^verbatim>\<open>create_stocks\<close>, over the feed rows. Its state is the list
  \<open>stocks\<close> being built and the caller's list \<open>offer_ids\<close>, which
  \<^verbatim>\<open>offer_ids.remove\<close> changes in place (the first occurrence is removed). The
  list is returned beside the result, also when \<^verbatim>\<open>int\<close> raises, since the
  removals made until then stay.
\<close>

fun create_stocks_loop ::
  "feed_row list \<Rightarrow> stock_update list \<Rightarrow> string list
     \<Rightarrow> (error + stock_update list) \<times> string list" where
  "create_stocks_loop [] stocks offer_ids = (Inr stocks, offer_ids)"
| "create_stocks_loop (watch # rest) stocks offer_ids =
     (if py_str (Kod watch) \<in> set offer_ids then
        (case stock_of (Kolichestvo watch) of
           Inl e \<Rightarrow> (Inl e, offer_ids)
         | Inr n \<Rightarrow>
             create_stocks_loop rest
               (stocks @ [\<lparr>offer_id = py_str (Kod watch), stock = n\<rparr>])
               (remove1 (py_str (Kod watch)) offer_ids))
      else create_stocks_loop rest stocks offer_ids)"

text \<open>
  \<^verbatim>\<open>create_stocks\<close>: the loop over the rows, then one record with stock 0 for
  every identifier still in \<open>offer_ids\<close>. The second component is the caller's
  list after the call.
\<close>

definition create_stocks ::
  "feed_row list \<Rightarrow> string list \<Rightarrow> (error + stock_update list) \<times> string list" where
  "create_stocks watch_remnants offer_ids =
     (case create_stocks_loop watch_remnants [] offer_ids of
        (Inl e, offer_ids') \<Rightarrow> (Inl e, offer_ids')
      | (Inr stocks, offer_ids') \<Rightarrow>
          (Inr (stocks @ map (\<lambda>i. \<lparr>offer_id = i, stock = 0\<rparr>) offer_ids'), offer_ids'))"

section \<open>The price transform\<close>

fun create_prices_loop ::
  "feed_row list \<Rightarrow> string list \<Rightarrow> price_update list \<Rightarrow> error + price_update list" where
  "create_prices_loop [] offer_ids prices = Inr prices"
| "create_prices_loop (watch # rest) offer_ids prices =
     (if py_str (Kod watch) \<in> set offer_ids then
        (case price_conversion (Tsena watch) of
           Inl e \<Rightarrow> Inl e
         | Inr p \<Rightarrow>
             create_prices_loop rest offer_ids
               (prices @ [\<lparr>auto_action_enabled = ''UNKNOWN'', currency_code = ''RUB'',
                           price_offer_id = py_str (Kod watch), old_price = ''0'',
                           price = p\<rparr>]))
      else create_prices_loop rest offer_ids prices)"

definition create_prices :: "feed_row list \<Rightarrow> string list \<Rightarrow> error + price_update list" where
  "create_prices watch_remnants offer_ids = create_prices_loop watch_remnants offer_ids []"

section \<open>Batching\<close>

text \<open>
  \<^verbatim>\<open>divide\<close> (lines 273 to 290) consists of its signature and its docstring: the
  body has no statement after the docstring, so a call returns \<^verbatim>\<open>None\<close> whatever
  the arguments are. The result type leaves room for the chunks the docstring
  announces (\<open>Some\<close> of the list of parts); the code never produces them.
\<close>

definition divide :: "'a list \<Rightarrow> int \<Rightarrow> 'a list list option" where
  "divide lst n = None"

text \<open>\<^verbatim>\<open>list(x)\<close>: the elements of an iterable, a \<^verbatim>\<open>TypeError\<close> on \<^verbatim>\<open>None\<close>.\<close>

definition py_list :: "'a list option \<Rightarrow> error + 'a list" where
  "py_list x = (case x of None \<Rightarrow> Inl TypeError | Some xs \<Rightarrow> Inr xs)"

section \<open>The catalog fetch\<close>

text \<open>
  An item of the catalog with its key \<^verbatim>\<open>offer_id\<close>, and the dictionary
  \<^verbatim>\<open>get_product_list\<close> returns, with its keys \<^verbatim>\<open>items\<close>, \<^verbatim>\<open>total\<close> and \<^verbatim>\<open>last_id\<close>:
  \<open>page_items\<close> is \<open>None\<close> when the key is absent, \<open>page_total\<close> and
  \<open>page_last_id\<close> are whatever value the response carries.
\<close>

record product =
  product_offer_id :: string

record page =
  page_items :: "product list option"
  page_total :: pyval
  page_last_id :: pyval

text \<open>
  The marketplace is a parameter: \<open>api i c\<close> is the outcome of the \<open>i\<close>-th call
  of \<^verbatim>\<open>get_product_list\<close> (counted from 0) when it is sent the cursor \<open>c\<close>: an
  exception (\<^verbatim>\<open>raise_for_status\<close>, a timeout), or the value of
  \<^verbatim>\<open>response_object.get("result")\<close>, which is \<open>None\<close> when that key is absent.

  One iteration of the \<^verbatim>\<open>while True\<close> loop of \<^verbatim>\<open>get_offer_ids\<close> (lines 74 to 79):
  \<open>Inl\<close> is the way out of the loop, by an exception or by \<^verbatim>\<open>break\<close> with the
  accumulated list, \<open>Inr\<close> is the state of the next iteration.
\<close>

definition get_offer_ids_step ::
  "(nat \<Rightarrow> pyval \<Rightarrow> error + page option) \<Rightarrow> nat \<Rightarrow> pyval \<Rightarrow> product list
     \<Rightarrow> (error + product list) + (pyval \<times> product list)" where
  "get_offer_ids_step api i last_id product_list =
     (case api i last_id of
        Inl e \<Rightarrow> Inl (Inl e)
      | Inr None \<Rightarrow> Inl (Inl AttributeError)
      | Inr (Some some_prod) \<Rightarrow>
          (case page_items some_prod of
             None \<Rightarrow> Inl (Inl TypeError)
           | Some its \<Rightarrow>
               if page_total some_prod = PyInt (int (length (product_list @ its)))
               then Inl (Inr (product_list @ its))
               else Inr (page_last_id some_prod, product_list @ its)))"

text \<open>The loop itself. It has no bound: \<open>None\<close> is the run that never leaves it.\<close>

partial_function (option) get_offer_ids_loop ::
  "(nat \<Rightarrow> pyval \<Rightarrow> error + page option) \<Rightarrow> nat \<Rightarrow> pyval \<Rightarrow> product list
     \<Rightarrow> (error + product list) option" where
  "get_offer_ids_loop api i last_id product_list =
     (case get_offer_ids_step api i last_id product_list of
        Inl result \<Rightarrow> Some result
      | Inr (last_id', product_list') \<Rightarrow> get_offer_ids_loop api (Suc i) last_id' product_list')"

definition get_offer_ids ::
  "(nat \<Rightarrow> pyval \<Rightarrow> error + page option) \<Rightarrow> (error + string list) option" where
  "get_offer_ids api =
     (case get_offer_ids_loop api 0 (PyStr []) [] of
        None \<Rightarrow> None
      | Some (Inl e) \<Rightarrow> Some (Inl e)
      | Some (Inr product_list) \<Rightarrow> Some (Inr (map product_offer_id product_list)))"

text \<open>
  The responses of a run, seen from outside: \<open>pages k\<close> is the page that answers
  call \<open>k\<close>. \<open>cursor pages k\<close> is the cursor the loop sends with call \<open>k\<close>, and
  \<open>accumulated pages k\<close> is the list it has collected from the first \<open>k\<close> pages.
\<close>

definition cursor :: "(nat \<Rightarrow> page) \<Rightarrow> nat \<Rightarrow> pyval" where
  "cursor pages k = (case k of 0 \<Rightarrow> PyStr [] | Suc j \<Rightarrow> page_last_id (pages j))"

definition accumulated :: "(nat \<Rightarrow> page) \<Rightarrow> nat \<Rightarrow> product list" where
  "accumulated pages k =
     concat (map (\<lambda>j. case page_items (pages j) of None \<Rightarrow> [] | Some its \<Rightarrow> its) [0..<k])"

section \<open>The feed download\<close>

text \<open>
  The working directory is a map from file names to contents. An archive is the
  list of its members; \<^verbatim>\<open>extractall\<close> writes them in order, a later member
  over an earlier one of the same name.
\<close>

definition extractall ::
  "(string \<times> string) list \<Rightarrow> (string \<rightharpoonup> string) \<Rightarrow> (string \<rightharpoonup> string)" where
  "extractall archive files = fold (\<lambda>(name, data) fs. fs(name \<mapsto> data)) archive files"

text \<open>\<^verbatim>\<open>os.remove\<close>: a \<^verbatim>\<open>FileNotFoundError\<close> when there is no such file.\<close>

definition os_remove :: "string \<Rightarrow> (string \<rightharpoonup> string) \<Rightarrow> error + (string \<rightharpoonup> string)" where
  "os_remove name files =
     (case files name of None \<Rightarrow> Inl FileNotFoundError | Some _ \<Rightarrow> Inr (files(name := None)))"

text \<open>
  \<^verbatim>\<open>download_stock\<close>. \<open>response\<close> is the outcome of lines 162 to 165 up to the
  opened archive (the request, \<^verbatim>\<open>raise_for_status\<close>, \<^verbatim>\<open>ZipFile\<close>), \<open>read_excel\<close> is
  the spreadsheet parser applied to the contents of the file. The paths
  \<^verbatim>\<open>ostatki.xls\<close> and \<^verbatim>\<open>./ostatki.xls\<close> name the same file of the working
  directory. The directory after the call is returned beside the result.
\<close>

definition download_stock ::
  "(error + (string \<times> string) list) \<Rightarrow> (string \<Rightarrow> error + feed_row list)
     \<Rightarrow> (string \<rightharpoonup> string) \<Rightarrow> (error + feed_row list) \<times> (string \<rightharpoonup> string)" where
  "download_stock response read_excel files =
     (case response of
        Inl e \<Rightarrow> (Inl e, files)
      | Inr archive \<Rightarrow>
          (let files' = extractall archive files in
           case files' ''ostatki.xls'' of
             None \<Rightarrow> (Inl FileNotFoundError, files')
           | Some content \<Rightarrow>
               (case read_excel content of
                  Inl e \<Rightarrow> (Inl e, files')
                | Inr watch_remnants \<Rightarrow>
                    (case os_remove ''ostatki.xls'' files' of
                       Inl e \<Rightarrow> (Inl e, files')
                     | Inr files'' \<Rightarrow> (Inr watch_remnants, files'')))))"

section \<open>The orchestrated run\<close>

text \<open>
  The two update requests. The marketplace is again a parameter: \<open>post c\<close> is
  \<open>Some e\<close> when the request \<open>c\<close> raises \<open>e\<close>. A \<^verbatim>\<open>for\<close> loop over chunks issues
  the requests in order and stops at the first that raises; \<open>trace\<close> lists the
  requests issued so far.
\<close>

datatype api_call = UpdateStocks "stock_update list" | UpdatePrice "price_update list"

fun send_all ::
  "(api_call \<Rightarrow> error option) \<Rightarrow> api_call list \<Rightarrow> api_call list
     \<Rightarrow> api_call list \<times> error option" where
  "send_all post [] trace = (trace, None)"
| "send_all post (c # cs) trace =
     (case post c of
        Some e \<Rightarrow> (trace @ [c], Some e)
      | None \<Rightarrow> send_all post cs (trace @ [c]))"

text \<open>The three \<^verbatim>\<open>except\<close> clauses of \<^verbatim>\<open>main\<close>, in their order, and what each prints.\<close>

datatype message = Timeout_message | Connection_message error | ERROR_2 error

definition handler :: "error \<Rightarrow> message" where
  "handler e =
     (if e = ReadTimeout then Timeout_message
      else if e = ConnectionError then Connection_message e
      else ERROR_2 e)"

text \<open>
  The \<^verbatim>\<open>try\<close> block of \<^verbatim>\<open>main\<close> (lines 315 to 324). \<open>fetched\<close> is the outcome of
  \<^verbatim>\<open>get_offer_ids\<close> and \<open>downloaded\<close> that of \<^verbatim>\<open>download_stock\<close>. The list
  \<open>offer_ids\<close> is fetched once: \<^verbatim>\<open>create_prices\<close> receives the same list object
  that \<^verbatim>\<open>create_stocks\<close> has changed. The result is the requests issued and the
  message printed, if any.
\<close>

definition main ::
  "(api_call \<Rightarrow> error option) \<Rightarrow> (error + string list) \<Rightarrow> (error + feed_row list)
     \<Rightarrow> api_call list \<times> message option" where
  "main post fetched downloaded =
     (case fetched of
        Inl e \<Rightarrow> ([], Some (handler e))
      | Inr offer_ids \<Rightarrow>
     (case downloaded of
        Inl e \<Rightarrow> ([], Some (handler e))
      | Inr watch_remnants \<Rightarrow>
     (case create_stocks watch_remnants offer_ids of
        (Inl e, offer_ids') \<Rightarrow> ([], Some (handler e))
      | (Inr stocks, offer_ids') \<Rightarrow>
     (case py_list (divide stocks 100) of
        Inl e \<Rightarrow> ([], Some (handler e))
      | Inr stock_chunks \<Rightarrow>
     (case send_all post (map UpdateStocks stock_chunks) [] of
        (trace, Some e) \<Rightarrow> (trace, Some (handler e))
      | (trace, None) \<Rightarrow>
     (case create_prices watch_remnants offer_ids' of
        Inl e \<Rightarrow> (trace, Some (handler e))
      | Inr prices \<Rightarrow>
     (case py_list (divide prices 900) of
        Inl e \<Rightarrow> (trace, Some (handler e))
      | Inr price_chunks \<Rightarrow>
     (case send_all post (map UpdatePrice price_chunks) trace of
        (trace', Some e) \<Rightarrow> (trace', Some (handler e))
      | (trace', None) \<Rightarrow> (trace', None)))))))))"

text \<open>
  \<^verbatim>\<open>upload_prices\<close> (lines 294 to 298), the price flow on its own: here
  \<^verbatim>\<open>create_prices\<close> receives the list as \<^verbatim>\<open>get_offer_ids\<close> has just returned it.
  The result is the requests issued and the returned list or the exception.
\<close>

definition upload_prices ::
  "(api_call \<Rightarrow> error option) \<Rightarrow> feed_row list \<Rightarrow> (error + string list)
     \<Rightarrow> api_call list \<times> (error + price_update list)" where
  "upload_prices post watch_remnants fetched =
     (case fetched of
        Inl e \<Rightarrow> ([], Inl e)
      | Inr offer_ids \<Rightarrow>
     (case create_prices watch_remnants offer_ids of
        Inl e \<Rightarrow> ([], Inl e)
      | Inr prices \<Rightarrow>
     (case py_list (divide prices 1000) of
        Inl e \<Rightarrow> ([], Inl e)
      | Inr price_chunks \<Rightarrow>
     (case send_all post (map UpdatePrice price_chunks) [] of
        (trace, Some e) \<Rightarrow> (trace, Inl e)
      | (trace, None) \<Rightarrow> (trace, Inr prices)))))"

section \<open>Properties of the price conversion\<close>

lemma split_not_Nil: "split sep s \<noteq> []"
  by (induction s) (auto split: list.splits)

lemma split_first: "index0 (split sep s) = Inr (takeWhile (\<lambda>c. c \<noteq> sep) s)"
proof (induction s)
  case Nil
  show ?case by (simp add: index0_def)
next
  case (Cons c cs)
  then show ?case
    using split_not_Nil [of sep cs]
    by (auto simp: index0_def split: list.splits)
qed

lemma price_conversion_str:
  "price_conversion (PyStr s) = Inr (filter is_digit (takeWhile (\<lambda>c. c \<noteq> CHR ''.'') s))"
  by (simp add: price_conversion_def split_first re_sub_non_digits_def)

text \<open>The definitions a concrete run unfolds.\<close>

lemmas eval_defs = create_stocks_def create_prices_def stock_of_def parse_int_def strip_def
  is_space_def parse_nat_def is_digit_def digit_val_def price_conversion_def index0_def
  re_sub_non_digits_def

text \<open>
  Claim C6. For every string, \<open>price_conversion\<close> returns the part of the
  string before its first \<^verbatim>\<open>.\<close> with every character that is not a digit
  removed. The three prices of the specification convert to \<^verbatim>\<open>5990\<close>, \<^verbatim>\<open>1\<close> and
  \<^verbatim>\<open>1234\<close>; the rouble suffix and the euro sign are written as their UTF-8
  bytes.
\<close>

theorem price_conversion_truncate_then_strip:
  "price_conversion (PyStr s) = Inr (filter is_digit (takeWhile (\<lambda>c. c \<noteq> CHR ''.'') s))
   \<and> price_conversion
       (PyStr (''5'990.00 '' @ [CHR 0xD1, CHR 0x80, CHR 0xD1, CHR 0x83, CHR 0xD0, CHR 0xB1] @ ''.''))
     = Inr ''5990''
   \<and> price_conversion (PyStr ''1.250,50 USD'') = Inr ''1''
   \<and> price_conversion (PyStr ([CHR 0xE2, CHR 0x82, CHR 0xAC] @ '' 1234.56'')) = Inr ''1234''"
proof (intro conjI)
  show "price_conversion (PyStr s) = Inr (filter is_digit (takeWhile (\<lambda>c. c \<noteq> CHR ''.'') s))"
    by (rule price_conversion_str)
qed (simp_all add: price_conversion_def index0_def re_sub_non_digits_def is_digit_def)

text \<open>
  Claim C10. On a string \<open>price_conversion\<close> never raises: it returns a string
  of digits, which is empty when there is no digit before the first \<^verbatim>\<open>.\<close>.
\<close>

theorem price_conversion_total:
  "\<exists>r. price_conversion (PyStr s) = Inr r \<and> (\<forall>c \<in> set r. is_digit c)
       \<and> ((\<forall>c \<in> set (takeWhile (\<lambda>c. c \<noteq> CHR ''.'') s). \<not> is_digit c) \<longrightarrow> r = [])"
  by (auto simp: price_conversion_str filter_empty_conv)

theorem price_conversion_total_witness:
  "price_conversion (PyStr ''n/a.50'') = Inr []"
  using price_conversion_total [of "''n/a.50''"]
  by (auto simp: is_digit_def)

section \<open>Properties of the price transform\<close>

lemma create_prices_loop_acc:
  assumes "\<forall>w \<in> set ws. py_str (Kod w) \<in> set ids \<longrightarrow> (\<exists>s. Tsena w = PyStr s)"
  shows "\<exists>ps. create_prices_loop ws ids acc = Inr (acc @ ps)
          \<and> list_all2 (\<lambda>w p. \<exists>s. Tsena w = PyStr s
                \<and> p = \<lparr>auto_action_enabled = ''UNKNOWN'', currency_code = ''RUB'',
                       price_offer_id = py_str (Kod w), old_price = ''0'',
                       price = filter is_digit (takeWhile (\<lambda>c. c \<noteq> CHR ''.'') s)\<rparr>)
              (filter (\<lambda>w. py_str (Kod w) \<in> set ids) ws) ps"
  using assms
proof (induction ws arbitrary: acc)
  case Nil
  then show ?case by simp
next
  case (Cons w ws)
  show ?case
  proof (cases "py_str (Kod w) \<in> set ids")
    case False
    with Cons show ?thesis by simp
  next
    case True
    with Cons.prems obtain s where s: "Tsena w = PyStr s" by auto
    let ?p = "\<lparr>auto_action_enabled = ''UNKNOWN'', currency_code = ''RUB'',
                       price_offer_id = py_str (Kod w), old_price = ''0'',
                       price = filter is_digit (takeWhile (\<lambda>c. c \<noteq> CHR ''.'') s)\<rparr>"
    from Cons.IH [of "acc @ [?p]"] Cons.prems
    obtain ps where ps: "create_prices_loop ws ids (acc @ [?p]) = Inr ((acc @ [?p]) @ ps)"
      "list_all2 (\<lambda>w p. \<exists>s. Tsena w = PyStr s
                \<and> p = \<lparr>auto_action_enabled = ''UNKNOWN'', currency_code = ''RUB'',
                       price_offer_id = py_str (Kod w), old_price = ''0'',
                       price = filter is_digit (takeWhile (\<lambda>c. c \<noteq> CHR ''.'') s)\<rparr>)
              (filter (\<lambda>w. py_str (Kod w) \<in> set ids) ws) ps"
      by auto
    show ?thesis
      using True s ps by (intro exI [of _ "?p # ps"]) (simp add: price_conversion_str)
  qed
qed

lemma create_prices_loop_no_match:
  "\<forall>w \<in> set ws. py_str (Kod w) \<notin> set ids \<Longrightarrow> create_prices_loop ws ids acc = Inr acc"
  by (induction ws arbitrary: acc) auto

text \<open>
  Claim C3. When the price cell of every matching row is a string,
  \<open>create_prices\<close> returns one record for each feed row whose code, as a
  string, is in the list of offer identifiers, in the order of the rows and for
  no other row: the record has the fixed fields \<^verbatim>\<open>UNKNOWN\<close>, \<^verbatim>\<open>RUB\<close> and \<^verbatim>\<open>0\<close>, the
  row's code as its offer identifier, and as its price the digits of the price
  string before its first \<^verbatim>\<open>.\<close>.
\<close>

theorem create_prices_records:
  assumes "\<forall>w \<in> set ws. py_str (Kod w) \<in> set ids \<longrightarrow> (\<exists>s. Tsena w = PyStr s)"
  shows "\<exists>ps. create_prices ws ids = Inr ps
          \<and> list_all2 (\<lambda>w p. \<exists>s. Tsena w = PyStr s
                \<and> p = \<lparr>auto_action_enabled = ''UNKNOWN'', currency_code = ''RUB'',
                       price_offer_id = py_str (Kod w), old_price = ''0'',
                       price = filter is_digit (takeWhile (\<lambda>c. c \<noteq> CHR ''.'') s)\<rparr>)
              (filter (\<lambda>w. py_str (Kod w) \<in> set ids) ws) ps"
  using create_prices_loop_acc [OF assms, of "[]"] by (simp add: create_prices_def)

theorem create_prices_records_witness:
  "create_prices
     [\<lparr>Kod = PyInt 123, Kolichestvo = PyStr ''>10'', Tsena = PyStr ''5'990.00''\<rparr>,
      \<lparr>Kod = PyStr ''zz'', Kolichestvo = PyStr ''2'', Tsena = PyInt 100\<rparr>]
     [''123'', ''abc'']
   = Inr [\<lparr>auto_action_enabled = ''UNKNOWN'', currency_code = ''RUB'',
           price_offer_id = ''123'', old_price = ''0'', price = ''5990''\<rparr>]"
  using create_prices_records
    [of "[\<lparr>Kod = PyInt 123, Kolichestvo = PyStr ''>10'', Tsena = PyStr ''5'990.00''\<rparr>,
          \<lparr>Kod = PyStr ''zz'', Kolichestvo = PyStr ''2'', Tsena = PyInt 100\<rparr>]"
        "[''123'', ''abc'']"]
  by (simp add: eval_defs nat_to_str.simps digit_char_def)

section \<open>Properties of the stock transform\<close>

lemma create_stocks_loop_acc:
  "create_stocks_loop ws stocks ids =
     (case create_stocks_loop ws [] ids of
        (Inl e, ids') \<Rightarrow> (Inl e, ids')
      | (Inr r, ids') \<Rightarrow> (Inr (stocks @ r), ids'))"
proof (induction ws arbitrary: stocks ids)
  case Nil
  show ?case by simp
next
  case (Cons w ws)
  show ?case
  proof (cases "py_str (Kod w) \<in> set ids")
    case False
    then show ?thesis using Cons.IH [of stocks ids] by simp
  next
    case True
    show ?thesis
    proof (cases "stock_of (Kolichestvo w)")
      case (Inl e)
      with True show ?thesis by simp
    next
      case (Inr n)
      let ?r = "\<lparr>offer_id = py_str (Kod w), stock = n\<rparr>"
      let ?ids = "remove1 (py_str (Kod w)) ids"
      show ?thesis
        using True Inr Cons.IH [of "stocks @ [?r]" ?ids] Cons.IH [of "[?r]" ?ids]
        by (auto split: prod.splits sum.splits)
    qed
  qed
qed

lemma create_stocks_loop_append:
  "create_stocks_loop (xs @ ys) stocks ids =
     (case create_stocks_loop xs stocks ids of
        (Inl e, ids') \<Rightarrow> (Inl e, ids')
      | (Inr r, ids') \<Rightarrow> create_stocks_loop ys r ids')"
  by (induction xs arbitrary: stocks ids) (auto split: sum.splits)

lemma create_stocks_loop_distinct:
  assumes "distinct ids" and "create_stocks_loop ws [] ids = (Inr r, ids')"
  shows "ids' = filter (\<lambda>i. i \<notin> (\<lambda>w. py_str (Kod w)) ` set ws) ids
       \<and> distinct (map offer_id r)
       \<and> set (map offer_id r) = set ids \<inter> (\<lambda>w. py_str (Kod w)) ` set ws
       \<and> (\<forall>u \<in> set r. \<exists>w. find (\<lambda>w. py_str (Kod w) = offer_id u) ws = Some w
                           \<and> stock_of (Kolichestvo w) = Inr (stock u))"
  using assms
proof (induction ws arbitrary: ids r)
  case Nil
  then show ?case by simp
next
  case (Cons w ws)
  show ?case
  proof (cases "py_str (Kod w) \<in> set ids")
    case False
    with Cons.prems have loop: "create_stocks_loop ws [] ids = (Inr r, ids')" by simp
    note IH = Cons.IH [OF Cons.prems(1) loop]
    have flt: "filter (\<lambda>i. i \<notin> (\<lambda>w. py_str (Kod w)) ` set (w # ws)) ids
             = filter (\<lambda>i. i \<notin> (\<lambda>w. py_str (Kod w)) ` set ws) ids"
      using False by (intro filter_cong) auto
    from IH have "offer_id ` set r \<subseteq> set ids" by auto
    with False have "\<forall>u \<in> set r. offer_id u \<noteq> py_str (Kod w)"
      by (metis image_eqI subsetD)
    with IH flt False show ?thesis by auto
  next
    case True
    let ?c = "py_str (Kod w)"
    let ?ids = "remove1 ?c ids"
    from True Cons.prems obtain n where n: "stock_of (Kolichestvo w) = Inr n"
      and rest: "create_stocks_loop ws [\<lparr>offer_id = ?c, stock = n\<rparr>] ?ids = (Inr r, ids')"
      by (auto split: sum.splits)
    from rest obtain r' where r: "r = \<lparr>offer_id = ?c, stock = n\<rparr> # r'"
      and loop: "create_stocks_loop ws [] ?ids = (Inr r', ids')"
      by (subst (asm) create_stocks_loop_acc) (auto split: prod.splits sum.splits)
    have d: "distinct ?ids" using Cons.prems(1) by simp
    note IH = Cons.IH [OF d loop]
    have rm: "?ids = filter (\<lambda>i. i \<noteq> ?c) ids"
      using Cons.prems(1) by (simp add: distinct_remove1_removeAll removeAll_filter_not_eq eq_commute)
    have ids': "ids' = filter (\<lambda>i. i \<notin> (\<lambda>w. py_str (Kod w)) ` set (w # ws)) ids"
      using IH by (auto simp: rm intro: filter_cong)
    from IH have "offer_id ` set r' \<subseteq> set ?ids" by auto
    moreover have "?c \<notin> set ?ids" using Cons.prems(1) by simp
    ultimately have notc: "\<forall>u \<in> set r'. offer_id u \<noteq> ?c"
      by (metis image_eqI subsetD)
    from IH have "distinct (map offer_id r')" by blast
    with notc have dist: "distinct (map offer_id r)"
      by (auto simp: r)
    have sr: "set ?ids = set ids - {?c}"
      using Cons.prems(1) by simp
    from IH have "offer_id ` set r' = set ?ids \<inter> (\<lambda>w. py_str (Kod w)) ` set ws"
      by simp
    then have "insert ?c (offer_id ` set r')
                 = set ids \<inter> insert ?c ((\<lambda>w. py_str (Kod w)) ` set ws)"
      unfolding sr using True by blast
    then have st: "set (map offer_id r) = set ids \<inter> (\<lambda>w. py_str (Kod w)) ` set (w # ws)"
      by (simp add: r)
    from IH have "\<forall>u \<in> set r'. \<exists>w. find (\<lambda>w. py_str (Kod w) = offer_id u) ws = Some w
                           \<and> stock_of (Kolichestvo w) = Inr (stock u)" by blast
    with notc n
    have fnd: "\<forall>u \<in> set r. \<exists>w'. find (\<lambda>w. py_str (Kod w) = offer_id u) (w # ws) = Some w'
                           \<and> stock_of (Kolichestvo w') = Inr (stock u)"
      by (auto simp: r)
    from ids' dist st fnd show ?thesis by blast
  qed
qed

text \<open>
  Claim C4. Take a feed row \<open>watch\<close> anywhere in the feed, \<open>pre\<close> being the rows
  before it, and let its code be among the offer identifiers that remain when
  the loop reaches it. When its quantity reads \<^verbatim>\<open>>10\<close> the loop appends a record
  for the row's code with stock 100, when it reads \<^verbatim>\<open>1\<close> a record with stock 0,
  and removes the code from the list; for any other quantity it appends the
  integer \<^verbatim>\<open>int\<close> parses from it, or raises what \<^verbatim>\<open>int\<close> raises. When the loop
  over the rows after \<open>watch\<close> returns as well, \<open>create_stocks\<close> returns with
  that record at that place of its output.
\<close>

theorem create_stocks_quantity_rule:
  assumes "create_stocks_loop pre [] ids = (Inr stocks, remaining)"
    and "py_str (Kod watch) \<in> set remaining"
  shows "(py_str (Kolichestvo watch) = ''>10'' \<longrightarrow>
            create_stocks_loop (pre @ [watch]) [] ids
              = (Inr (stocks @ [\<lparr>offer_id = py_str (Kod watch), stock = 100\<rparr>]),
                 remove1 (py_str (Kod watch)) remaining))
       \<and> (py_str (Kolichestvo watch) = ''1'' \<longrightarrow>
            create_stocks_loop (pre @ [watch]) [] ids
              = (Inr (stocks @ [\<lparr>offer_id = py_str (Kod watch), stock = 0\<rparr>]),
                 remove1 (py_str (Kod watch)) remaining))
       \<and> (py_str (Kolichestvo watch) \<noteq> ''>10'' \<and> py_str (Kolichestvo watch) \<noteq> ''1'' \<longrightarrow>
            create_stocks_loop (pre @ [watch]) [] ids
              = (case py_int (Kolichestvo watch) of
                   Inl e \<Rightarrow> (Inl e, remaining)
                 | Inr n \<Rightarrow>
                     (Inr (stocks @ [\<lparr>offer_id = py_str (Kod watch), stock = n\<rparr>]),
                      remove1 (py_str (Kod watch)) remaining)))
       \<and> (\<forall>n r ids'.
             create_stocks_loop (pre @ [watch]) [] ids
               = (Inr (stocks @ [\<lparr>offer_id = py_str (Kod watch), stock = n\<rparr>]),
                  remove1 (py_str (Kod watch)) remaining)
             \<and> create_stocks_loop post [] (remove1 (py_str (Kod watch)) remaining) = (Inr r, ids')
             \<longrightarrow> create_stocks (pre @ watch # post) ids
                   = (Inr (stocks @ \<lparr>offer_id = py_str (Kod watch), stock = n\<rparr> # r
                             @ map (\<lambda>i. \<lparr>offer_id = i, stock = 0\<rparr>) ids'), ids'))"
proof -
  let ?c = "py_str (Kod watch)"
  have step: "create_stocks_loop (pre @ [watch]) [] ids =
                (case stock_of (Kolichestvo watch) of
                   Inl e \<Rightarrow> (Inl e, remaining)
                 | Inr n \<Rightarrow> (Inr (stocks @ [\<lparr>offer_id = ?c, stock = n\<rparr>]), remove1 ?c remaining))"
    using assms by (simp add: create_stocks_loop_append split: sum.splits)
  have big: "py_str (Kolichestvo watch) = ''>10'' \<longrightarrow>
            create_stocks_loop (pre @ [watch]) [] ids
              = (Inr (stocks @ [\<lparr>offer_id = ?c, stock = 100\<rparr>]), remove1 ?c remaining)"
    by (simp add: step stock_of_def)
  have one: "py_str (Kolichestvo watch) = ''1'' \<longrightarrow>
            create_stocks_loop (pre @ [watch]) [] ids
              = (Inr (stocks @ [\<lparr>offer_id = ?c, stock = 0\<rparr>]), remove1 ?c remaining)"
    by (simp add: step stock_of_def)
  have other: "py_str (Kolichestvo watch) \<noteq> ''>10'' \<and> py_str (Kolichestvo watch) \<noteq> ''1'' \<longrightarrow>
            create_stocks_loop (pre @ [watch]) [] ids
              = (case py_int (Kolichestvo watch) of
                   Inl e \<Rightarrow> (Inl e, remaining)
                 | Inr n \<Rightarrow> (Inr (stocks @ [\<lparr>offer_id = ?c, stock = n\<rparr>]), remove1 ?c remaining))"
    by (simp add: step stock_of_def)
  have whole: "create_stocks (pre @ watch # post) ids
                 = (Inr (stocks @ \<lparr>offer_id = ?c, stock = n\<rparr> # r
                           @ map (\<lambda>i. \<lparr>offer_id = i, stock = 0\<rparr>) ids'), ids')"
    if L: "create_stocks_loop (pre @ [watch]) [] ids
             = (Inr (stocks @ [\<lparr>offer_id = ?c, stock = n\<rparr>]), remove1 ?c remaining)"
      and P: "create_stocks_loop post [] (remove1 ?c remaining) = (Inr r, ids')"
    for n r ids'
  proof -
    have "create_stocks_loop (pre @ watch # post) [] ids
            = create_stocks_loop ((pre @ [watch]) @ post) [] ids"
      by simp
    also have "\<dots> = create_stocks_loop post (stocks @ [\<lparr>offer_id = ?c, stock = n\<rparr>])
                        (remove1 ?c remaining)"
      by (simp only: create_stocks_loop_append [of "pre @ [watch]"] L prod.case sum.case)
    also have "\<dots> = (Inr ((stocks @ [\<lparr>offer_id = ?c, stock = n\<rparr>]) @ r), ids')"
      by (subst create_stocks_loop_acc) (simp add: P)
    finally show ?thesis
      by (simp add: create_stocks_def)
  qed
  from big one other whole show ?thesis by blast
qed

theorem create_stocks_quantity_rule_witness:
  "create_stocks_loop [\<lparr>Kod = PyStr ''a'', Kolichestvo = PyStr ''5'', Tsena = PyStr ''10''\<rparr>] []
      [''a'', ''b'', ''c'', ''d''] = (Inr [\<lparr>offer_id = ''a'', stock = 5\<rparr>], [''b'', ''c'', ''d''])
   \<and> create_stocks_loop
        ([\<lparr>Kod = PyStr ''a'', Kolichestvo = PyStr ''5'', Tsena = PyStr ''10''\<rparr>]
          @ [\<lparr>Kod = PyStr ''b'', Kolichestvo = PyStr ''1'', Tsena = PyStr ''20''\<rparr>]) []
        [''a'', ''b'', ''c'', ''d'']
      = (Inr [\<lparr>offer_id = ''a'', stock = 5\<rparr>, \<lparr>offer_id = ''b'', stock = 0\<rparr>], [''c'', ''d''])
   \<and> create_stocks_loop
        ([\<lparr>Kod = PyStr ''a'', Kolichestvo = PyStr ''5'', Tsena = PyStr ''10''\<rparr>]
          @ [\<lparr>Kod = PyStr ''c'', Kolichestvo = PyStr ''>10'', Tsena = PyStr ''30''\<rparr>]) []
        [''a'', ''b'', ''c'', ''d'']
      = (Inr [\<lparr>offer_id = ''a'', stock = 5\<rparr>, \<lparr>offer_id = ''c'', stock = 100\<rparr>], [''b'', ''d''])
   \<and> create_stocks_loop
        ([\<lparr>Kod = PyStr ''a'', Kolichestvo = PyStr ''5'', Tsena = PyStr ''10''\<rparr>]
          @ [\<lparr>Kod = PyStr ''d'', Kolichestvo = PyStr ''-7'', Tsena = PyStr ''40''\<rparr>]) []
        [''a'', ''b'', ''c'', ''d'']
      = (Inr [\<lparr>offer_id = ''a'', stock = 5\<rparr>, \<lparr>offer_id = ''d'', stock = - 7\<rparr>], [''b'', ''c''])
   \<and> create_stocks
        ([\<lparr>Kod = PyStr ''a'', Kolichestvo = PyStr ''5'', Tsena = PyStr ''10''\<rparr>]
          @ \<lparr>Kod = PyStr ''b'', Kolichestvo = PyStr ''1'', Tsena = PyStr ''20''\<rparr>
          # [\<lparr>Kod = PyStr ''c'', Kolichestvo = PyStr ''>10'', Tsena = PyStr ''30''\<rparr>])
        [''a'', ''b'', ''c'', ''d'']
      = (Inr [\<lparr>offer_id = ''a'', stock = 5\<rparr>, \<lparr>offer_id = ''b'', stock = 0\<rparr>,
              \<lparr>offer_id = ''c'', stock = 100\<rparr>, \<lparr>offer_id = ''d'', stock = 0\<rparr>], [''d''])"
proof -
  let ?a = "\<lparr>Kod = PyStr ''a'', Kolichestvo = PyStr ''5'', Tsena = PyStr ''10''\<rparr>"
  let ?b = "\<lparr>Kod = PyStr ''b'', Kolichestvo = PyStr ''1'', Tsena = PyStr ''20''\<rparr>"
  let ?c = "\<lparr>Kod = PyStr ''c'', Kolichestvo = PyStr ''>10'', Tsena = PyStr ''30''\<rparr>"
  let ?d = "\<lparr>Kod = PyStr ''d'', Kolichestvo = PyStr ''-7'', Tsena = PyStr ''40''\<rparr>"
  have h1: "create_stocks_loop [?a] [] [''a'', ''b'', ''c'', ''d'']
              = (Inr [\<lparr>offer_id = ''a'', stock = 5\<rparr>], [''b'', ''c'', ''d''])"
    by (simp add: eval_defs)
  have hb: "py_str (Kod ?b) \<in> set [''b'', ''c'', ''d'']" by simp
  have hc: "py_str (Kod ?c) \<in> set [''b'', ''c'', ''d'']" by simp
  have hd: "py_str (Kod ?d) \<in> set [''b'', ''c'', ''d'']" by simp
  have post: "create_stocks_loop [?c] [] [''c'', ''d'']
                = (Inr [\<lparr>offer_id = ''c'', stock = 100\<rparr>], [''d''])"
    by (simp add: eval_defs)
  have int7: "py_int (PyStr ''-7'') = Inr (- 7)"
    by (simp add: eval_defs)
  note B = create_stocks_quantity_rule [OF h1 hb, of "[?c]"]
  note C = create_stocks_quantity_rule [OF h1 hc, of "[]"]
  note D = create_stocks_quantity_rule [OF h1 hd, of "[]"]
  have b: "create_stocks_loop ([?a] @ [?b]) [] [''a'', ''b'', ''c'', ''d'']
      = (Inr [\<lparr>offer_id = ''a'', stock = 5\<rparr>, \<lparr>offer_id = ''b'', stock = 0\<rparr>], [''c'', ''d''])"
    using B by simp
  have c: "create_stocks_loop ([?a] @ [?c]) [] [''a'', ''b'', ''c'', ''d'']
      = (Inr [\<lparr>offer_id = ''a'', stock = 5\<rparr>, \<lparr>offer_id = ''c'', stock = 100\<rparr>], [''b'', ''d''])"
    using C by simp
  have d: "create_stocks_loop ([?a] @ [?d]) [] [''a'', ''b'', ''c'', ''d'']
      = (Inr [\<lparr>offer_id = ''a'', stock = 5\<rparr>, \<lparr>offer_id = ''d'', stock = - 7\<rparr>], [''b'', ''c''])"
    using D int7 by simp
  have whole: "create_stocks ([?a] @ ?b # [?c]) [''a'', ''b'', ''c'', ''d'']
      = (Inr [\<lparr>offer_id = ''a'', stock = 5\<rparr>, \<lparr>offer_id = ''b'', stock = 0\<rparr>,
              \<lparr>offer_id = ''c'', stock = 100\<rparr>, \<lparr>offer_id = ''d'', stock = 0\<rparr>], [''d''])"
    using B b post by simp
  from h1 b c d whole show ?thesis by blast
qed

text \<open>
  Claim C5. For a list of offer identifiers without duplicates, the records
  \<open>create_stocks\<close> returns carry every identifier of the list exactly once and
  no other identifier; the stock of a record is the one the quantity rule gives
  for the first feed row with that code, and 0 when no feed row has that code.
\<close>

theorem create_stocks_each_offer_id_once:
  assumes "distinct ids" and "create_stocks ws ids = (Inr out, ids')"
  shows "distinct (map offer_id out) \<and> set (map offer_id out) = set ids
       \<and> (\<forall>u \<in> set out.
            case find (\<lambda>w. py_str (Kod w) = offer_id u) ws of
              None \<Rightarrow> stock u = 0
            | Some w \<Rightarrow> stock_of (Kolichestvo w) = Inr (stock u))"
proof -
  from assms(2) obtain r where r: "create_stocks_loop ws [] ids = (Inr r, ids')"
    and out: "out = r @ map (\<lambda>i. \<lparr>offer_id = i, stock = 0\<rparr>) ids'"
    by (auto simp: create_stocks_def split: prod.splits sum.splits)
  note L = create_stocks_loop_distinct [OF assms(1) r]
  have ids: "map offer_id out = map offer_id r @ ids'"
    by (simp add: out comp_def)
  have "distinct (map offer_id out)"
    unfolding ids using L assms(1) by auto
  moreover have "set (map offer_id out) = set ids"
    unfolding ids using L by auto
  moreover have "\<forall>u \<in> set out.
            case find (\<lambda>w. py_str (Kod w) = offer_id u) ws of
              None \<Rightarrow> stock u = 0
            | Some w \<Rightarrow> stock_of (Kolichestvo w) = Inr (stock u)"
  proof
    fix u assume "u \<in> set out"
    then consider "u \<in> set r" | i where "i \<in> set ids'" "u = \<lparr>offer_id = i, stock = 0\<rparr>"
      by (auto simp: out)
    then show "case find (\<lambda>w. py_str (Kod w) = offer_id u) ws of
              None \<Rightarrow> stock u = 0
            | Some w \<Rightarrow> stock_of (Kolichestvo w) = Inr (stock u)"
    proof cases
      case 1
      with L show ?thesis by auto
    next
      case 2
      with L have "find (\<lambda>w. py_str (Kod w) = offer_id u) ws = None"
        by (auto simp: find_None_iff)
      with 2 show ?thesis by simp
    qed
  qed
  ultimately show ?thesis by blast
qed

theorem create_stocks_each_offer_id_once_witness:
  "distinct [''a'', ''b'', ''c'']
   \<and> create_stocks
        [\<lparr>Kod = PyStr ''b'', Kolichestvo = PyStr ''>10'', Tsena = PyStr ''20''\<rparr>,
         \<lparr>Kod = PyStr ''b'', Kolichestvo = PyStr ''7'', Tsena = PyStr ''20''\<rparr>,
         \<lparr>Kod = PyStr ''zz'', Kolichestvo = PyStr ''3'', Tsena = PyStr ''30''\<rparr>]
        [''a'', ''b'', ''c'']
      = (Inr [\<lparr>offer_id = ''b'', stock = 100\<rparr>, \<lparr>offer_id = ''a'', stock = 0\<rparr>,
              \<lparr>offer_id = ''c'', stock = 0\<rparr>], [''a'', ''c''])
   \<and> distinct (map offer_id [\<lparr>offer_id = ''b'', stock = 100\<rparr>, \<lparr>offer_id = ''a'', stock = 0\<rparr>,
              \<lparr>offer_id = ''c'', stock = 0\<rparr>])
   \<and> set (map offer_id [\<lparr>offer_id = ''b'', stock = 100\<rparr>, \<lparr>offer_id = ''a'', stock = 0\<rparr>,
              \<lparr>offer_id = ''c'', stock = 0\<rparr>]) = set [''a'', ''b'', ''c'']"
proof -
  have h1: "distinct [''a'', ''b'', ''c'']" by simp
  have h2: "create_stocks
        [\<lparr>Kod = PyStr ''b'', Kolichestvo = PyStr ''>10'', Tsena = PyStr ''20''\<rparr>,
         \<lparr>Kod = PyStr ''b'', Kolichestvo = PyStr ''7'', Tsena = PyStr ''20''\<rparr>,
         \<lparr>Kod = PyStr ''zz'', Kolichestvo = PyStr ''3'', Tsena = PyStr ''30''\<rparr>]
        [''a'', ''b'', ''c'']
      = (Inr [\<lparr>offer_id = ''b'', stock = 100\<rparr>, \<lparr>offer_id = ''a'', stock = 0\<rparr>,
              \<lparr>offer_id = ''c'', stock = 0\<rparr>], [''a'', ''c''])"
    by (simp add: eval_defs)
  from create_stocks_each_offer_id_once [OF h1 h2] h1 h2 show ?thesis by blast
qed

text \<open>
  Claim C9 as stated fails when the list has a duplicate: \<^verbatim>\<open>remove\<close> deletes the
  first occurrence only. With the list \<^verbatim>\<open>['a', 'a']\<close> and one row of code \<^verbatim>\<open>a\<close> the
  identifier is matched and is still in the list after the call, and
  \<open>create_prices\<close> called with that list sees it.
\<close>

theorem create_stocks_duplicate_counterexample:
  "py_str (Kod \<lparr>Kod = PyStr ''a'', Kolichestvo = PyStr ''5'', Tsena = PyStr ''10''\<rparr>) = ''a''
   \<and> create_stocks [\<lparr>Kod = PyStr ''a'', Kolichestvo = PyStr ''5'', Tsena = PyStr ''10''\<rparr>]
        [''a'', ''a'']
      = (Inr [\<lparr>offer_id = ''a'', stock = 5\<rparr>, \<lparr>offer_id = ''a'', stock = 0\<rparr>], [''a''])
   \<and> create_prices [\<lparr>Kod = PyStr ''a'', Kolichestvo = PyStr ''5'', Tsena = PyStr ''10''\<rparr>] [''a'']
      = Inr [\<lparr>auto_action_enabled = ''UNKNOWN'', currency_code = ''RUB'',
              price_offer_id = ''a'', old_price = ''0'', price = ''10''\<rparr>]"
  by (simp add: eval_defs)

text \<open>
  Claim C9, amended. For a list of offer identifiers without duplicates, when
  \<open>create_stocks\<close> returns, the caller's list holds exactly the identifiers
  that are the code of no feed row, in their order; \<open>create_prices\<close> called with
  that list afterwards, as \<open>main\<close> does, matches no row and returns the empty
  list.
\<close>

theorem create_stocks_leaves_unmatched:
  assumes "distinct ids" and "create_stocks ws ids = (Inr out, ids')"
  shows "ids' = filter (\<lambda>i. i \<notin> (\<lambda>w. py_str (Kod w)) ` set ws) ids
       \<and> create_prices ws ids' = Inr []"
proof -
  from assms(2) obtain r where r: "create_stocks_loop ws [] ids = (Inr r, ids')"
    by (auto simp: create_stocks_def split: prod.splits sum.splits)
  note L = create_stocks_loop_distinct [OF assms(1) r]
  then have ids': "ids' = filter (\<lambda>i. i \<notin> (\<lambda>w. py_str (Kod w)) ` set ws) ids" by blast
  then have "\<forall>w \<in> set ws. py_str (Kod w) \<notin> set ids'" by auto
  then have "create_prices ws ids' = Inr []"
    by (simp add: create_prices_def create_prices_loop_no_match)
  with ids' show ?thesis by blast
qed

theorem create_stocks_leaves_unmatched_witness:
  "distinct [''a'', ''b'']
   \<and> create_stocks [\<lparr>Kod = PyStr ''a'', Kolichestvo = PyStr ''5'', Tsena = PyStr ''10''\<rparr>]
        [''a'', ''b'']
      = (Inr [\<lparr>offer_id = ''a'', stock = 5\<rparr>, \<lparr>offer_id = ''b'', stock = 0\<rparr>], [''b''])
   \<and> create_prices [\<lparr>Kod = PyStr ''a'', Kolichestvo = PyStr ''5'', Tsena = PyStr ''10''\<rparr>] [''b'']
      = Inr []"
proof -
  have h1: "distinct [''a'', ''b'']" by simp
  have h2: "create_stocks [\<lparr>Kod = PyStr ''a'', Kolichestvo = PyStr ''5'', Tsena = PyStr ''10''\<rparr>]
        [''a'', ''b'']
      = (Inr [\<lparr>offer_id = ''a'', stock = 5\<rparr>, \<lparr>offer_id = ''b'', stock = 0\<rparr>], [''b''])"
    by (simp add: eval_defs)
  from create_stocks_leaves_unmatched [OF h1 h2] h1 h2 show ?thesis by blast
qed

section \<open>Properties of batching and of the orchestrated run\<close>

text \<open>
  Claim C1, evaluated on the code. The docstring of \<open>divide\<close> gives
  \<^verbatim>\<open>list(divide([1, 2, 3, 4], 2))\<close> as \<^verbatim>\<open>[[1, 2], [3, 4]]\<close>. The function returns
  \<^verbatim>\<open>None\<close> instead, so \<^verbatim>\<open>list\<close> of its result raises a \<^verbatim>\<open>TypeError\<close>; the same
  happens for 2500 records and the chunk size 1000, where the specification
  expects three chunks.
\<close>

theorem divide_returns_None:
  "divide [1, 2, 3, 4 :: int] 2 = None
   \<and> divide [1, 2, 3, 4 :: int] 2 \<noteq> Some [[1, 2], [3, 4]]
   \<and> py_list (divide [1, 2, 3, 4 :: int] 2) = Inl TypeError
   \<and> py_list (divide (replicate 2500 (0 :: int)) 1000) = Inl TypeError"
  by (simp add: divide_def py_list_def)

text \<open>
  Since \<open>divide\<close> returns \<^verbatim>\<open>None\<close>, no run of \<open>main\<close> gets past its first
  \<^verbatim>\<open>list(divide(...))\<close>: whatever the catalog, the feed and the marketplace are,
  no update request is issued.
\<close>

lemma main_issues_no_request: "fst (main post fetched downloaded) = []"
  by (simp add: main_def py_list_def divide_def split: sum.splits prod.splits)

text \<open>
  Claim C2, evaluated on the code. The catalog holds the offer identifier
  \<^verbatim>\<open>123\<close> and the feed has one row with that code. The run issues no request at
  all and prints the message of the last \<^verbatim>\<open>except\<close> clause for the \<^verbatim>\<open>TypeError\<close>
  that \<^verbatim>\<open>list(divide(stocks, 100))\<close> raises. Had it gone on, \<open>create_prices\<close>
  would have received the list \<open>create_stocks\<close> left, which is empty, and
  returned no price record, where a freshly fetched list gives the record for
  \<^verbatim>\<open>123\<close>.
\<close>

theorem main_emits_no_price_update:
  "main (\<lambda>c. None) (Inr [''123''])
      (Inr [\<lparr>Kod = PyStr ''123'', Kolichestvo = PyStr ''5'', Tsena = PyStr ''5990''\<rparr>])
     = ([], Some (ERROR_2 TypeError))
   \<and> create_stocks [\<lparr>Kod = PyStr ''123'', Kolichestvo = PyStr ''5'', Tsena = PyStr ''5990''\<rparr>]
        [''123'']
     = (Inr [\<lparr>offer_id = ''123'', stock = 5\<rparr>], [])
   \<and> create_prices [\<lparr>Kod = PyStr ''123'', Kolichestvo = PyStr ''5'', Tsena = PyStr ''5990''\<rparr>] []
     = Inr []
   \<and> create_prices [\<lparr>Kod = PyStr ''123'', Kolichestvo = PyStr ''5'', Tsena = PyStr ''5990''\<rparr>]
        [''123'']
     = Inr [\<lparr>auto_action_enabled = ''UNKNOWN'', currency_code = ''RUB'',
             price_offer_id = ''123'', old_price = ''0'', price = ''5990''\<rparr>]"
  by (simp add: main_def eval_defs py_list_def divide_def handler_def)

section \<open>Properties of the catalog fetch\<close>

lemma accumulated_Suc:
  "accumulated pages (Suc k) =
     accumulated pages k @ (case page_items (pages k) of None \<Rightarrow> [] | Some its \<Rightarrow> its)"
  by (simp add: accumulated_def)

lemma get_offer_ids_step_page:
  assumes "api j (cursor pages j) = Inr (Some (pages j))" and "page_items (pages j) \<noteq> None"
  shows "get_offer_ids_step api j (cursor pages j) (accumulated pages j) =
           (if page_total (pages j) = PyInt (int (length (accumulated pages (Suc j))))
            then Inl (Inr (accumulated pages (Suc j)))
            else Inr (cursor pages (Suc j), accumulated pages (Suc j)))"
  using assms by (auto simp: get_offer_ids_step_def accumulated_Suc cursor_def)

lemma get_offer_ids_loop_diverges:
  assumes H: "\<forall>k. api k (cursor pages k) = Inr (Some (pages k)) \<and> page_items (pages k) \<noteq> None
                \<and> page_total (pages k) \<noteq> PyInt (int (length (accumulated pages (Suc k))))"
  shows "get_offer_ids_loop api k (cursor pages k) (accumulated pages k) = None"
proof (rule ccontr)
  assume "get_offer_ids_loop api k (cursor pages k) (accumulated pages k) \<noteq> None"
  then obtain y where y: "get_offer_ids_loop api k (cursor pages k) (accumulated pages k) = Some y"
    by auto
  define P where "P = (\<lambda>(a :: nat \<Rightarrow> pyval \<Rightarrow> error + page option) i c acc
      (r :: error + product list). \<not> (a = api \<and> c = cursor pages i \<and> acc = accumulated pages i))"
  have "P api k (cursor pages k) (accumulated pages k) y"
  proof (rule get_offer_ids_loop.raw_induct [where P = P, OF _ y])
    fix loop a i c acc r
    assume IH: "\<And>a i c acc r. loop a i c acc = Some r \<Longrightarrow> P a i c acc r"
      and step: "(case get_offer_ids_step a i c acc of
                    Inl result \<Rightarrow> Some result
                  | Inr (c', acc') \<Rightarrow> loop a (Suc i) c' acc') = Some r"
    show "P a i c acc r"
      unfolding P_def
    proof
      assume eq: "a = api \<and> c = cursor pages i \<and> acc = accumulated pages i"
      from H have "get_offer_ids_step api i (cursor pages i) (accumulated pages i)
                     = Inr (cursor pages (Suc i), accumulated pages (Suc i))"
        by (simp add: get_offer_ids_step_page)
      with step eq
      have "loop api (Suc i) (cursor pages (Suc i)) (accumulated pages (Suc i)) = Some r"
        by simp
      from IH [OF this] show False by (simp add: P_def)
    qed
  qed
  then show False by (simp add: P_def)
qed

lemma get_offer_ids_loop_reaches:
  assumes ok: "\<forall>j\<le>k. api j (cursor pages j) = Inr (Some (pages j)) \<and> page_items (pages j) \<noteq> None"
    and ne: "\<forall>j<k. page_total (pages j) \<noteq> PyInt (int (length (accumulated pages (Suc j))))"
    and eq: "page_total (pages k) = PyInt (int (length (accumulated pages (Suc k))))"
    and le: "j \<le> k"
  shows "get_offer_ids_loop api j (cursor pages j) (accumulated pages j)
           = Some (Inr (accumulated pages (Suc k)))"
  using le
proof (induction "k - j" arbitrary: j)
  case 0
  then have "j = k" by simp
  with ok eq have "get_offer_ids_step api j (cursor pages j) (accumulated pages j)
                     = Inl (Inr (accumulated pages (Suc k)))"
    by (simp add: get_offer_ids_step_page)
  then show ?case
    by (subst get_offer_ids_loop.simps) simp
next
  case (Suc d)
  then have lt: "j < k" by simp
  with ok ne have "get_offer_ids_step api j (cursor pages j) (accumulated pages j)
                     = Inr (cursor pages (Suc j), accumulated pages (Suc j))"
    by (simp add: get_offer_ids_step_page)
  moreover have "get_offer_ids_loop api (Suc j) (cursor pages (Suc j)) (accumulated pages (Suc j))
                   = Some (Inr (accumulated pages (Suc k)))"
    using Suc lt by (intro Suc.hyps(1)) auto
  ultimately show ?case
    by (subst get_offer_ids_loop.simps) simp
qed

text \<open>
  Claim C7. Let \<open>pages\<close> be the pages that answer the calls of a run, every
  one carrying a list of items. If the length of the accumulated list never
  equals the total of the page just received, \<open>get_offer_ids\<close> does not return.
  If it does so for the first time with call \<open>k\<close>, \<open>get_offer_ids\<close> returns then,
  with the offer identifiers of the items of the pages up to \<open>k\<close>.
\<close>

theorem get_offer_ids_returns_iff_total_reached:
  "((\<forall>k. api k (cursor pages k) = Inr (Some (pages k)) \<and> page_items (pages k) \<noteq> None
         \<and> page_total (pages k) \<noteq> PyInt (int (length (accumulated pages (Suc k)))))
      \<longrightarrow> get_offer_ids api = None)
   \<and> ((\<forall>j\<le>k. api j (cursor pages j) = Inr (Some (pages j)) \<and> page_items (pages j) \<noteq> None)
        \<and> (\<forall>j<k. page_total (pages j) \<noteq> PyInt (int (length (accumulated pages (Suc j)))))
        \<and> page_total (pages k) = PyInt (int (length (accumulated pages (Suc k))))
      \<longrightarrow> get_offer_ids api = Some (Inr (map product_offer_id (accumulated pages (Suc k)))))"
proof (intro conjI impI)
  assume "\<forall>k. api k (cursor pages k) = Inr (Some (pages k)) \<and> page_items (pages k) \<noteq> None
         \<and> page_total (pages k) \<noteq> PyInt (int (length (accumulated pages (Suc k))))"
  then have "get_offer_ids_loop api 0 (cursor pages 0) (accumulated pages 0) = None"
    by (rule get_offer_ids_loop_diverges)
  then show "get_offer_ids api = None"
    by (simp add: get_offer_ids_def cursor_def accumulated_def)
next
  assume "(\<forall>j\<le>k. api j (cursor pages j) = Inr (Some (pages j)) \<and> page_items (pages j) \<noteq> None)
        \<and> (\<forall>j<k. page_total (pages j) \<noteq> PyInt (int (length (accumulated pages (Suc j)))))
        \<and> page_total (pages k) = PyInt (int (length (accumulated pages (Suc k))))"
  then have "get_offer_ids_loop api 0 (cursor pages 0) (accumulated pages 0)
           = Some (Inr (accumulated pages (Suc k)))"
    by (intro get_offer_ids_loop_reaches) auto
  then show "get_offer_ids api = Some (Inr (map product_offer_id (accumulated pages (Suc k))))"
    by (simp add: get_offer_ids_def cursor_def accumulated_def)
qed

theorem get_offer_ids_returns_iff_total_reached_witness:
  "get_offer_ids
     (\<lambda>i c. Inr (Some \<lparr>page_items = Some [\<lparr>product_offer_id = ''a''\<rparr>, \<lparr>product_offer_id = ''b''\<rparr>],
                        page_total = PyInt 3, page_last_id = PyStr ''x''\<rparr>))
     = None
   \<and> get_offer_ids
       (\<lambda>i c. if c = PyStr [] then
                 Inr (Some \<lparr>page_items = Some [\<lparr>product_offer_id = ''a''\<rparr>, \<lparr>product_offer_id = ''b''\<rparr>],
                            page_total = PyInt 3, page_last_id = PyStr ''x''\<rparr>)
               else if c = PyStr ''x'' then
                 Inr (Some \<lparr>page_items = Some [\<lparr>product_offer_id = ''c''\<rparr>],
                            page_total = PyInt 3, page_last_id = PyStr ''y''\<rparr>)
               else Inl HTTPError)
     = Some (Inr [''a'', ''b'', ''c''])"
proof -
  let ?p0 = "\<lparr>page_items = Some [\<lparr>product_offer_id = ''a''\<rparr>, \<lparr>product_offer_id = ''b''\<rparr>],
              page_total = PyInt 3, page_last_id = PyStr ''x''\<rparr>"
  let ?p1 = "\<lparr>page_items = Some [\<lparr>product_offer_id = ''c''\<rparr>],
              page_total = PyInt 3, page_last_id = PyStr ''y''\<rparr>"
  let ?same = "\<lambda>k :: nat. ?p0"
  let ?two = "\<lambda>k :: nat. if k = 0 then ?p0 else ?p1"
  let ?api = "\<lambda>(i :: nat) c. if c = PyStr [] then Inr (Some ?p0)
               else if c = PyStr ''x'' then Inr (Some ?p1) else Inl HTTPError"
  have len: "length (accumulated ?same n) = 2 * n" for n
    by (induction n) (simp_all add: accumulated_def)
  have "3 \<noteq> int (2 * Suc k)" for k
    by presburger
  then have stuck: "\<forall>k. (\<lambda>i c. Inr (Some ?p0)) k (cursor ?same k) = Inr (Some (?same k))
         \<and> page_items (?same k) \<noteq> None
         \<and> page_total (?same k) \<noteq> PyInt (int (length (accumulated ?same (Suc k))))"
    by (simp add: len del: of_nat_mult of_nat_Suc)
  have acc1: "accumulated ?two (Suc 0) = [\<lparr>product_offer_id = ''a''\<rparr>, \<lparr>product_offer_id = ''b''\<rparr>]"
    by (simp add: accumulated_def)
  have acc2: "accumulated ?two (Suc (Suc 0))
                = [\<lparr>product_offer_id = ''a''\<rparr>, \<lparr>product_offer_id = ''b''\<rparr>, \<lparr>product_offer_id = ''c''\<rparr>]"
    by (simp add: accumulated_def)
  have reach: "(\<forall>j\<le>Suc 0. ?api j (cursor ?two j) = Inr (Some (?two j)) \<and> page_items (?two j) \<noteq> None)
        \<and> (\<forall>j<Suc 0. page_total (?two j) \<noteq> PyInt (int (length (accumulated ?two (Suc j)))))
        \<and> page_total (?two (Suc 0)) = PyInt (int (length (accumulated ?two (Suc (Suc 0)))))"
    by (simp add: le_Suc_eq cursor_def acc1 acc2)
  from get_offer_ids_returns_iff_total_reached [of "\<lambda>i c. Inr (Some ?p0)" ?same]
       get_offer_ids_returns_iff_total_reached [of ?api ?two "Suc 0"] stuck reach acc2
  show ?thesis by simp
qed

section \<open>Properties of the feed download\<close>

lemma extractall_lookup:
  "extractall archive files name =
     (case map_of (rev archive) name of None \<Rightarrow> files name | Some d \<Rightarrow> Some d)"
  unfolding extractall_def
  by (induction archive arbitrary: files) (auto simp: map_add_def split: option.splits)

text \<open>
  Claim C8. Let the archive hold a member \<^verbatim>\<open>ostatki.xls\<close>. If the parser returns
  rows, \<open>download_stock\<close> returns them and the working directory afterwards is
  the extracted one without that file. If the parser raises, \<open>download_stock\<close>
  raises the same exception and the working directory still holds the
  extracted file.
\<close>

theorem download_stock_cleanup:
  assumes "map_of (rev archive) ''ostatki.xls'' = Some content"
  shows "(read_excel content = Inr rows \<longrightarrow>
            download_stock (Inr archive) read_excel files
              = (Inr rows, (extractall archive files)(''ostatki.xls'' := None)))
       \<and> (read_excel content = Inl e \<longrightarrow>
            download_stock (Inr archive) read_excel files = (Inl e, extractall archive files)
            \<and> extractall archive files ''ostatki.xls'' = Some content)"
proof -
  have "extractall archive files ''ostatki.xls'' = Some content"
    using assms by (simp add: extractall_lookup)
  then show ?thesis
    by (simp add: download_stock_def os_remove_def)
qed

theorem download_stock_cleanup_witness:
  "map_of (rev [(''ostatki.xls'', ''data'')]) ''ostatki.xls'' = Some ''data''
   \<and> fst (download_stock (Inr [(''ostatki.xls'', ''data'')])
            (\<lambda>c. Inr [\<lparr>Kod = PyStr c, Kolichestvo = PyStr ''1'', Tsena = PyStr ''2''\<rparr>]) Map.empty)
       = Inr [\<lparr>Kod = PyStr ''data'', Kolichestvo = PyStr ''1'', Tsena = PyStr ''2''\<rparr>]
   \<and> snd (download_stock (Inr [(''ostatki.xls'', ''data'')])
            (\<lambda>c. Inr [\<lparr>Kod = PyStr c, Kolichestvo = PyStr ''1'', Tsena = PyStr ''2''\<rparr>]) Map.empty)
         ''ostatki.xls'' = None
   \<and> fst (download_stock (Inr [(''ostatki.xls'', ''data'')]) (\<lambda>c. Inl ParseError) Map.empty)
       = Inl ParseError
   \<and> snd (download_stock (Inr [(''ostatki.xls'', ''data'')]) (\<lambda>c. Inl ParseError) Map.empty)
         ''ostatki.xls'' = Some ''data''"
proof -
  have h: "map_of (rev [(''ostatki.xls'', ''data'')]) ''ostatki.xls'' = Some ''data''"
    by simp
  from download_stock_cleanup [OF h, of "\<lambda>c. Inr [\<lparr>Kod = PyStr c, Kolichestvo = PyStr ''1'', Tsena = PyStr ''2''\<rparr>]"
         "[\<lparr>Kod = PyStr ''data'', Kolichestvo = PyStr ''1'', Tsena = PyStr ''2''\<rparr>]" Map.empty]
       download_stock_cleanup [OF h, of "\<lambda>c. Inl ParseError" _ Map.empty ParseError] h
  show ?thesis by simp
qed

end
